theory Spec2Isabelle
  imports Main
begin

section \<open>The Sensu handler for Microsoft Teams\<close>

text \<open>
  The handler reads a Sensu event from standard input, checks it, turns it into a message
  card and posts the card to a webhook. The repository holds two versions of the program;
  the one embedded here is the later one, which computes the colour and the headline of the
  card from the status of the check (\<open>getColor\<close>, \<open>getMessageStatus\<close>) and
  the link in a function of its own (\<open>getLink\<close>). Its functions are embedded below in
  the order of the source. What the program imports (the Sensu types, \<open>encoding/json\<close>,
  \<open>net/url\<close>, \<open>net/http\<close>) is not part of it: those functions are fields of the record
  \<open>extern\<close>, and every function of the program that calls one of them takes the record
  as its first argument.
\<close>

subsection \<open>Go values\<close>

text \<open>
  A Go \<open>error\<close> value that is not \<open>nil\<close>, seen through its method \<open>Error()\<close>;
  \<open>errors.New\<close> and \<open>fmt.Errorf\<close> build one from a message. A Go \<open>error\<close> that may
  be \<open>nil\<close> is an \<open>error option\<close>.
\<close>

datatype error = errorString string

fun Error :: "error \<Rightarrow> string" where
  "Error (errorString s) = s"

text \<open>
  A Go function either returns or panics. The two panics of the program are the
  dereference of a \<open>nil\<close> pointer and \<open>panic(err)\<close>.
\<close>

datatype panic = nil_pointer_dereference | panic_error error

datatype 'a go = Return 'a | Panic panic

subsection \<open>The event\<close>

text \<open>
  Modelled from the spec: the type \<open>types.Event\<close> of the package
  \<open>github.com/sensu/sensu-go/types\<close>, which the program imports. The program reads
  \<open>event.Entity\<close>, \<open>event.Check\<close>, \<open>event.Check.Status\<close> and \<open>event.Check.Output\<close>;
  the spec gives an entity with a name, and a check that is a named probe with an integer
  status code and a free-text output. \<open>int\<close> holds every value of every Go integer type,
  so what is proved for all of \<open>int\<close> holds for the type the package declares.
\<close>

record Entity =
  Entity_Name :: string

record Check =
  Check_Name :: string
  Check_Status :: int
  Check_Output :: string

record Event =
  Event_Entity :: Entity
  Event_Check :: Check

text \<open>
  In the package the fields \<open>Entity\<close> and \<open>Check\<close> of \<open>types.Event\<close> are pointers, and
  \<open>json.Unmarshal\<close> leaves a pointer \<open>nil\<close> when the payload has no such key. \<open>Decoded\<close>
  is the struct as the decoder fills it, with \<open>None\<close> for \<open>nil\<close>. \<open>Event\<close> above is
  the same struct once both pointers are known to point to something, which is how the
  functions that \<open>run\<close> calls after the two validations receive it.
\<close>

record Decoded =
  Decoded_Entity :: "Entity option"
  Decoded_Check :: "Check option"

subsection \<open>The variables of the package\<close>

text \<open>
  The variables \<open>webhookURL\<close>, \<open>channel\<close>, \<open>messagePrefix\<close>, \<open>iconURL\<close>,
  \<open>actionName\<close> and \<open>dashboard\<close> are set once, by the flags that
  \<open>configureRootCommand\<close> declares, before \<open>run\<close> is called. The record holds their
  values at that moment.
\<close>

record config =
  webhookURL :: string
  channel :: string
  messagePrefix :: string
  iconURL :: string
  actionName :: string
  dashboard :: string

subsection \<open>The message\<close>

record Section =
  Section_Text :: string

record Target =
  Target_OS :: string
  Target_URI :: string

record PotentialAction =
  Action_Type :: string
  Action_Name :: string
  Action_Targets :: "Target list"

record Message =
  ThemeColor :: string
  Text :: string
  Channel :: string
  Sections :: "Section list"
  PotentialActions :: "PotentialAction list"

subsection \<open>HTTP\<close>

text \<open>
  A request as \<open>http.NewRequest\<close> builds it, and what the program looks at in a
  response: the result of closing its body.
\<close>

record Request =
  Request_Method :: string
  Request_URL :: string
  Request_Body :: string
  Request_Header :: "(string \<times> string list) list"

record Response =
  Body_Close :: "error option"

text \<open>\<open>Header.Set\<close> replaces the values stored under the key.\<close>

definition Header_Set ::
  "string \<Rightarrow> string \<Rightarrow> (string \<times> string list) list \<Rightarrow> (string \<times> string list) list" where
  "Header_Set k v h = (k, [v]) # filter (\<lambda>p. fst p \<noteq> k) h"

subsection \<open>The imported packages\<close>

text \<open>
  \<open>'u\<close> is the type of a parsed URL and \<open>'x\<close> the type of the errors of \<open>url.Parse\<close>.
  \<open>client_Do\<close> is the network: what \<open>client.Do\<close> answers to a request.
\<close>

record ('u, 'x) extern =
  url_Parse :: "string \<Rightarrow> 'x + 'u"
  url_ResolveReference :: "'u \<Rightarrow> 'u \<Rightarrow> 'u"
  url_String :: "'u \<Rightarrow> string"
  Event_URIPath :: "Event \<Rightarrow> string"
  Entity_Validate :: "Entity \<Rightarrow> error option"
  Check_Validate :: "Check \<Rightarrow> error option"
  json_Unmarshal :: "string \<Rightarrow> error + Decoded"
  json_Marshal :: "Message \<Rightarrow> error + string"
  http_NewRequest :: "string \<Rightarrow> string \<Rightarrow> string \<Rightarrow> error + Request"
  client_Do :: "Request \<Rightarrow> error + Response"

subsection \<open>Composing the message\<close>

definition getLink :: "('u, 'x) extern \<Rightarrow> config \<Rightarrow> Event \<Rightarrow> string" where
  "getLink ex cfg event =
     (case url_Parse ex (dashboard cfg) of
        Inl err \<Rightarrow> ''''
      | Inr dashboardUrl \<Rightarrow>
          (case url_Parse ex (Event_URIPath ex event) of
             Inl err \<Rightarrow> ''''
           | Inr eventPath \<Rightarrow>
               url_String ex (url_ResolveReference ex dashboardUrl eventPath)))"

definition getColor :: "Event \<Rightarrow> string" where
  "getColor event =
     (let s = Check_Status (Event_Check event) in
      if s = 0 then ''#36A64F''
      else if s = 1 then ''#FFCC00''
      else if s = 2 then ''#FF0000''
      else ''#6600CC'')"

definition getMessageStatus :: "Event \<Rightarrow> string" where
  "getMessageStatus event =
     (let s = Check_Status (Event_Check event) in
      if s = 0 then ''RESOLVED''
      else if s = 1 then ''WARNING''
      else if s = 2 then ''CRITICAL''
      else ''UNKNOWN'')"

text \<open>
  \<open>NewEventMessage\<close> builds the message and then appends to its three slices, one
  statement after the other. The last statement updates element 0 of the slice of
  actions, which the statement before it has just appended.
\<close>

definition NewEventMessage :: "('u, 'x) extern \<Rightarrow> config \<Rightarrow> Event \<Rightarrow> Message" where
  "NewEventMessage ex cfg event =
     (let message = \<lparr>ThemeColor = getColor event, Text = getMessageStatus event,
                     Channel = channel cfg, Sections = [], PotentialActions = []\<rparr>;
          message = message\<lparr>Sections :=
                      Sections message @ [\<lparr>Section_Text = Check_Output (Event_Check event)\<rparr>]\<rparr>;
          message = message\<lparr>PotentialActions :=
                      PotentialActions message @
                        [\<lparr>Action_Type = ''OpenUri'', Action_Name = ''View in Sensu'',
                          Action_Targets = []\<rparr>]\<rparr>;
          action0 = PotentialActions message ! 0;
          message = message\<lparr>PotentialActions :=
                      (PotentialActions message)
                        [0 := action0\<lparr>Action_Targets :=
                                Action_Targets action0 @
                                  [\<lparr>Target_OS = ''default'',
                                    Target_URI = getLink ex cfg event\<rparr>]\<rparr>]\<rparr>
      in message)"

subsection \<open>Sending\<close>

text \<open>
  What the program does to the world, in order: \<open>cmd.Help()\<close> prints the usage,
  \<open>ioutil.ReadAll(stdin)\<close> reads standard input, \<open>client.Do(req)\<close> makes the HTTP call.
\<close>

datatype effect = Help | ReadStdin | HTTPDo Request

text \<open>
  \<open>sendMessage\<close> drops the error of \<open>json.Marshal\<close>, and the body is then \<open>nil\<close>.
  It keeps the error of \<open>http.NewRequest\<close> in \<open>err\<close> but does not test it before
  \<open>req.Header.Set\<close>: when \<open>http.NewRequest\<close> fails, \<open>req\<close> is \<open>nil\<close> and the call
  dereferences it. The deferred function closes the body when \<open>sendMessage\<close> returns.
\<close>

definition sendMessage ::
  "('u, 'x) extern \<Rightarrow> config \<Rightarrow> Event \<Rightarrow> error option go \<times> effect list" where
  "sendMessage ex cfg event =
     (let message = NewEventMessage ex cfg event;
          MessageString = (case json_Marshal ex message of Inl _ \<Rightarrow> '''' | Inr s \<Rightarrow> s)
      in case http_NewRequest ex ''POST'' (webhookURL cfg) MessageString of
           Inl err \<Rightarrow> (Panic nil_pointer_dereference, [])
         | Inr req0 \<Rightarrow>
             (let req = req0\<lparr>Request_Header :=
                          Header_Set ''Content-Type'' ''application/json'' (Request_Header req0)\<rparr>
              in case client_Do ex req of
                   Inl err \<Rightarrow> (Panic (panic_error err), [HTTPDo req])
                 | Inr resp \<Rightarrow>
                     (case Body_Close resp of
                        Some err \<Rightarrow> (Panic (panic_error err), [HTTPDo req])
                      | None \<Rightarrow> (Return None, [HTTPDo req]))))"

subsection \<open>The command\<close>

text \<open>
  \<open>run\<close> is the \<open>RunE\<close> of the command: cobra calls it with the arguments that are
  not flags, after it has set the variables of the package. \<open>stdin\<close> is what
  \<open>ioutil.ReadAll\<close> returns on the file the variable \<open>stdin\<close> names (\<open>os.Stdin\<close> when the
  variable is \<open>nil\<close>). \<open>fmt.Errorf\<close> with the verb \<open>%s\<close> copies the bytes of its
  argument into the message.

  \<open>run\<close> calls \<open>event.Entity.Validate()\<close> and \<open>event.Check.Validate()\<close> without
  testing the pointers. \<open>Validate\<close> is a method on the pointer and starts by reading the
  name of its receiver, so on a \<open>nil\<close> receiver it dereferences \<open>nil\<close> and panics.
\<close>

definition run ::
  "('u, 'x) extern \<Rightarrow> config \<Rightarrow> error + string \<Rightarrow> string list \<Rightarrow>
     error option go \<times> effect list" where
  "run ex cfg stdin args =
     (if length args \<noteq> 0 then
        (Return (Some (errorString ''invalid argument(s) received'')), [Help])
      else if webhookURL cfg = '''' then
        (Return (Some (errorString ''webhook url is empty'')), [Help])
      else
        (case stdin of
           Inl err \<Rightarrow>
             (Return (Some (errorString (''failed to read stdin: '' @ Error err))), [ReadStdin])
         | Inr eventJSON \<Rightarrow>
             (case json_Unmarshal ex eventJSON of
                Inl err \<Rightarrow>
                  (Return (Some (errorString (''failed to unmarshal stdin data: '' @ eventJSON))),
                   [ReadStdin])
              | Inr event \<Rightarrow>
                  (case Decoded_Entity event of
                     None \<Rightarrow> (Panic nil_pointer_dereference, [ReadStdin])
                   | Some entity \<Rightarrow>
                       (case Entity_Validate ex entity of
                          Some err \<Rightarrow> (Return (Some err), [ReadStdin])
                        | None \<Rightarrow>
                            (case Decoded_Check event of
                               None \<Rightarrow> (Panic nil_pointer_dereference, [ReadStdin])
                             | Some check \<Rightarrow>
                                 (case Check_Validate ex check of
                                    Some err \<Rightarrow> (Return (Some err), [ReadStdin])
                                  | None \<Rightarrow>
                                      (case sendMessage ex cfg
                                              \<lparr>Event_Entity = entity, Event_Check = check\<rparr> of
                                         (Panic p, effs) \<Rightarrow> (Panic p, ReadStdin # effs)
                                       | (Return (Some err), effs) \<Rightarrow>
                                           (Return (Some (errorString (Error err))),
                                            ReadStdin # effs)
                                       | (Return None, effs) \<Rightarrow>
                                           (Return None, ReadStdin # effs)))))))))"

text \<open>
  \<open>main\<close> executes the command; the model starts where cobra has parsed the flags and
  calls \<open>run\<close>. When \<open>run\<close> returns an error, \<open>Execute\<close> returns
  it and \<open>log.Fatal\<close> writes its message and exits with status 1. A panic that nothing
  recovers ends a Go program with status 2, after the runtime has written the panic to
  standard error. The record is how the process ends: its exit status and the message
  written about the failure.
\<close>

record exit =
  status :: nat
  message :: "string option"

fun panic_message :: "panic \<Rightarrow> string" where
  "panic_message nil_pointer_dereference =
     ''panic: runtime error: invalid memory address or nil pointer dereference''"
| "panic_message (panic_error err) = ''panic: '' @ Error err"

definition main ::
  "('u, 'x) extern \<Rightarrow> config \<Rightarrow> error + string \<Rightarrow> string list \<Rightarrow> exit \<times> effect list" where
  "main ex cfg stdin args =
     (case run ex cfg stdin args of
        (Return None, effs) \<Rightarrow> (\<lparr>status = 0, message = None\<rparr>, effs)
      | (Return (Some err), effs) \<Rightarrow> (\<lparr>status = 1, message = Some (Error err)\<rparr>, effs)
      | (Panic p, effs) \<Rightarrow> (\<lparr>status = 2, message = Some (panic_message p)\<rparr>, effs))"

section \<open>The package net/url\<close>

text \<open>
  \<open>getLink\<close> leaves the parsing, the resolution and the printing of URLs to the Go
  package \<open>net/url\<close>. To run \<open>getLink\<close> on given strings, this section writes out what
  \<open>url.Parse\<close>, \<open>(*URL).ResolveReference\<close> and \<open>(*URL).String\<close> compute, function by
  function after \<open>url.go\<close> of Go 1.13. A Go string is a sequence of bytes, here a
  list of \<open>char\<close>.
\<close>

subsection \<open>Bytes and the functions of the package strings\<close>

definition between :: "char \<Rightarrow> char \<Rightarrow> char \<Rightarrow> bool" where
  "between lo hi c = ((of_char lo :: nat) \<le> of_char c \<and> (of_char c :: nat) \<le> of_char hi)"

definition HasPrefix :: "string \<Rightarrow> string \<Rightarrow> bool" where
  "HasPrefix s p = (take (length p) s = p)"

definition HasSuffix :: "string \<Rightarrow> string \<Rightarrow> bool" where
  "HasSuffix s p = (length p \<le> length s \<and> drop (length s - length p) s = p)"

text \<open>\<open>Index\<close> and \<open>LastIndex\<close> return \<open>-1\<close> when the substring does not occur.\<close>

definition Index :: "string \<Rightarrow> string \<Rightarrow> int" where
  "Index s substr =
     (case List.find (\<lambda>i. HasPrefix (drop i s) substr) [0..<Suc (length s)] of
        None \<Rightarrow> -1 | Some i \<Rightarrow> int i)"

definition LastIndex :: "string \<Rightarrow> string \<Rightarrow> int" where
  "LastIndex s substr =
     (case List.find (\<lambda>i. HasPrefix (drop i s) substr) (rev [0..<Suc (length s)]) of
        None \<Rightarrow> -1 | Some i \<Rightarrow> int i)"

definition Contains :: "string \<Rightarrow> string \<Rightarrow> bool" where
  "Contains s substr = (0 \<le> Index s substr)"

text \<open>\<open>strings.Count\<close> and \<open>strings.Split\<close>, for a separator of one byte.\<close>

definition Count :: "string \<Rightarrow> char \<Rightarrow> nat" where
  "Count s sep = length (filter (\<lambda>c. c = sep) s)"

fun Split :: "string \<Rightarrow> char \<Rightarrow> string list" where
  "Split [] sep = [[]]"
| "Split (c # cs) sep =
     (if c = sep then [] # Split cs sep
      else (case Split cs sep of [] \<Rightarrow> [[c]] | x # xs \<Rightarrow> (c # x) # xs))"

fun Join :: "string list \<Rightarrow> string \<Rightarrow> string" where
  "Join [] sep = []"
| "Join [x] sep = x"
| "Join (x # y # ys) sep = x @ sep @ Join (y # ys) sep"

definition TrimPrefix :: "string \<Rightarrow> string \<Rightarrow> string" where
  "TrimPrefix s p = (if HasPrefix s p then drop (length p) s else s)"

text \<open>
  \<open>strings.ToLower\<close> on ASCII: the only string the package lowers is a scheme, which
  \<open>getscheme\<close> makes of ASCII letters, digits, plus, minus and dot.
\<close>

definition ToLower :: "string \<Rightarrow> string" where
  "ToLower s =
     map (\<lambda>c. if between CHR ''A'' CHR ''Z'' c then char_of ((of_char c :: nat) + 32) else c) s"

subsection \<open>Escaping\<close>

datatype url_error =
    invalid_control_character
  | empty_url
  | invalid_URI_for_request
  | missing_protocol_scheme
  | first_path_segment_colon
  | missing_bracket
  | invalid_port string
  | invalid_userinfo
  | EscapeError string
  | InvalidHostError string

datatype encoding =
    encodePath
  | encodePathSegment
  | encodeHost
  | encodeZone
  | encodeUserPassword
  | encodeQueryComponent
  | encodeFragment

definition ishex :: "char \<Rightarrow> bool" where
  "ishex c =
     (between CHR ''0'' CHR ''9'' c \<or> between CHR ''a'' CHR ''f'' c \<or> between CHR ''A'' CHR ''F'' c)"

definition unhex :: "char \<Rightarrow> nat" where
  "unhex c =
     (if between CHR ''0'' CHR ''9'' c then of_char c - of_char CHR ''0''
      else if between CHR ''a'' CHR ''f'' c then of_char c - of_char CHR ''a'' + 10
      else if between CHR ''A'' CHR ''F'' c then of_char c - of_char CHR ''A'' + 10
      else 0)"

text \<open>The characters the host mode lets through: the sub-delims, colon, brackets, angle
  brackets and the double quote (byte 0x22); 0x27 is the single quote.\<close>

definition host_allowed :: "char list" where
  "host_allowed =
     [CHR ''!'', CHR ''$'', CHR ''&'', CHR 0x27, CHR ''('', CHR '')'', CHR ''*'', CHR ''+'',
      CHR '','', CHR '';'', CHR ''='', CHR '':'', CHR ''['', CHR '']'', CHR ''<'', CHR ''>'',
      CHR 0x22]"

definition shouldEscape :: "char \<Rightarrow> encoding \<Rightarrow> bool" where
  "shouldEscape c mode =
     (if between CHR ''a'' CHR ''z'' c \<or> between CHR ''A'' CHR ''Z'' c \<or>
         between CHR ''0'' CHR ''9'' c then False
      else if (mode = encodeHost \<or> mode = encodeZone) \<and> c \<in> set host_allowed then False
      else if c \<in> set ''-_.~'' then False
      else if c \<in> set ''$&+,/:;=?@'' then
        (case mode of
           encodePath \<Rightarrow> c = CHR ''?''
         | encodePathSegment \<Rightarrow>
             c = CHR ''/'' \<or> c = CHR '';'' \<or> c = CHR '','' \<or> c = CHR ''?''
         | encodeUserPassword \<Rightarrow>
             c = CHR ''@'' \<or> c = CHR ''/'' \<or> c = CHR ''?'' \<or> c = CHR '':''
         | encodeQueryComponent \<Rightarrow> True
         | encodeFragment \<Rightarrow> False
         | _ \<Rightarrow> True)
      else if mode = encodeFragment \<and> c \<in> set ''!()*'' then False
      else True)"

text \<open>
  \<open>unescape\<close> runs over the string twice. The first loop finds a malformed escape
  or, in a host, a byte that may not stand there; \<open>unescape_scan\<close> is that loop and
  returns the error, if any. The second loop decodes; \<open>unescape_decode\<close> is that loop.
  Go returns the string itself when the first loop saw nothing to decode, which is what
  the second loop computes then.
\<close>

fun unescape_scan :: "encoding \<Rightarrow> string \<Rightarrow> url_error option" where
  "unescape_scan mode [] = None"
| "unescape_scan mode (c # cs) =
     (if c = CHR ''%'' then
        (case cs of
           a # b # rest \<Rightarrow>
             (if \<not> (ishex a \<and> ishex b) then Some (EscapeError [c, a, b])
              else if mode = encodeHost \<and> unhex a < 8 \<and> [c, a, b] \<noteq> ''%25'' then
                Some (EscapeError [c, a, b])
              else if mode = encodeZone \<and> [c, a, b] \<noteq> ''%25'' \<and>
                      char_of (unhex a * 16 + unhex b) \<noteq> CHR '' '' \<and>
                      shouldEscape (char_of (unhex a * 16 + unhex b)) encodeHost then
                Some (EscapeError [c, a, b])
              else unescape_scan mode rest)
         | _ \<Rightarrow> Some (EscapeError (c # cs)))
      else if (mode = encodeHost \<or> mode = encodeZone) \<and> (of_char c :: nat) < 128 \<and>
              shouldEscape c encodeHost then Some (InvalidHostError [c])
      else unescape_scan mode cs)"

fun unescape_decode :: "encoding \<Rightarrow> string \<Rightarrow> string" where
  "unescape_decode mode [] = []"
| "unescape_decode mode (c # cs) =
     (if c = CHR ''%'' then
        (case cs of
           a # b # rest \<Rightarrow> char_of (unhex a * 16 + unhex b) # unescape_decode mode rest
         | _ \<Rightarrow> [])
      else if c = CHR ''+'' then
        (if mode = encodeQueryComponent then CHR '' '' else CHR ''+'') # unescape_decode mode cs
      else c # unescape_decode mode cs)"

definition unescape :: "string \<Rightarrow> encoding \<Rightarrow> url_error + string" where
  "unescape s mode =
     (case unescape_scan mode s of
        Some err \<Rightarrow> Inl err
      | None \<Rightarrow> Inr (unescape_decode mode s))"

definition upperhex :: "nat \<Rightarrow> char" where
  "upperhex n = ''0123456789ABCDEF'' ! (n mod 16)"

definition escape :: "string \<Rightarrow> encoding \<Rightarrow> string" where
  "escape s mode =
     concat (map (\<lambda>c.
       if shouldEscape c mode then
         (if c = CHR '' '' \<and> mode = encodeQueryComponent then ''+''
          else [CHR ''%'', upperhex ((of_char c :: nat) div 16), upperhex ((of_char c :: nat) mod 16)])
       else [c]) s)"

subsection \<open>The type URL\<close>

record Userinfo =
  username :: string
  password :: string
  passwordSet :: bool

record URL =
  Scheme :: string
  Opaque :: string
  User :: "Userinfo option"
  Host :: string
  Path :: string
  RawPath :: string
  ForceQuery :: bool
  RawQuery :: string
  Fragment :: string

text \<open>\<open>new(URL)\<close>: every field has the zero value of its type.\<close>

definition new_URL :: URL where
  "new_URL = \<lparr>Scheme = '''', Opaque = '''', User = None, Host = '''', Path = '''',
              RawPath = '''', ForceQuery = False, RawQuery = '''', Fragment = ''''\<rparr>"

definition url_User :: "string \<Rightarrow> Userinfo" where
  "url_User name = \<lparr>username = name, password = '''', passwordSet = False\<rparr>"

definition url_UserPassword :: "string \<Rightarrow> string \<Rightarrow> Userinfo" where
  "url_UserPassword name pw = \<lparr>username = name, password = pw, passwordSet = True\<rparr>"

definition Userinfo_String :: "Userinfo \<Rightarrow> string" where
  "Userinfo_String u =
     (let s = escape (username u) encodeUserPassword
      in if passwordSet u then s @ '':'' @ escape (password u) encodeUserPassword else s)"

subsection \<open>Parsing\<close>

definition stringContainsCTLByte :: "string \<Rightarrow> bool" where
  "stringContainsCTLByte s = list_ex (\<lambda>b. (of_char b :: nat) < 32 \<or> (of_char b :: nat) = 127) s"

text \<open>
  The loop of \<open>getscheme\<close>: \<open>i\<close> is the index of the byte at the head of the third
  argument, which is what is left of \<open>rawurl\<close> from \<open>i\<close> on.
\<close>

fun getscheme_loop :: "string \<Rightarrow> nat \<Rightarrow> string \<Rightarrow> url_error + (string \<times> string)" where
  "getscheme_loop rawurl i [] = Inr ('''', rawurl)"
| "getscheme_loop rawurl i (c # cs) =
     (if between CHR ''a'' CHR ''z'' c \<or> between CHR ''A'' CHR ''Z'' c then
        getscheme_loop rawurl (Suc i) cs
      else if between CHR ''0'' CHR ''9'' c \<or> c = CHR ''+'' \<or> c = CHR ''-'' \<or> c = CHR ''.'' then
        (if i = 0 then Inr ('''', rawurl) else getscheme_loop rawurl (Suc i) cs)
      else if c = CHR '':'' then
        (if i = 0 then Inl missing_protocol_scheme
         else Inr (take i rawurl, drop (Suc i) rawurl))
      else Inr ('''', rawurl))"

definition getscheme :: "string \<Rightarrow> url_error + (string \<times> string)" where
  "getscheme rawurl = getscheme_loop rawurl 0 rawurl"

text \<open>\<open>split\<close> cuts \<open>s\<close> at the first \<open>c\<close>; \<open>cutc\<close> says whether \<open>c\<close> is dropped.\<close>

definition split :: "string \<Rightarrow> string \<Rightarrow> bool \<Rightarrow> string \<times> string" where
  "split s c cutc =
     (let i = Index s c
      in if i < 0 then (s, '''')
         else if cutc then (take (nat i) s, drop (nat i + length c) s)
         else (take (nat i) s, drop (nat i) s))"

definition validOptionalPort :: "string \<Rightarrow> bool" where
  "validOptionalPort port =
     (case port of
        [] \<Rightarrow> True
      | c # cs \<Rightarrow> c = CHR '':'' \<and> list_all (between CHR ''0'' CHR ''9'') cs)"

text \<open>
  \<open>validUserinfo\<close> ranges over the runes of the string and accepts ASCII runes only;
  a byte from 0x80 on is part of a rune that is not ASCII, so the test is the same byte
  by byte.
\<close>

definition validUserinfo :: "string \<Rightarrow> bool" where
  "validUserinfo s =
     list_all (\<lambda>r. between CHR ''A'' CHR ''Z'' r \<or> between CHR ''a'' CHR ''z'' r \<or>
                   between CHR ''0'' CHR ''9'' r \<or>
                   r \<in> set [CHR ''-'', CHR ''.'', CHR ''_'', CHR '':'', CHR ''~'', CHR ''!'',
                             CHR ''$'', CHR ''&'', CHR 0x27, CHR ''('', CHR '')'', CHR ''*'',
                             CHR ''+'', CHR '','', CHR '';'', CHR ''='', CHR ''%'', CHR ''@'']) s"

definition parseHost :: "string \<Rightarrow> url_error + string" where
  "parseHost host =
     (if HasPrefix host ''['' then
        (let i = LastIndex host '']''
         in if i < 0 then Inl missing_bracket
            else
              (let colonPort = drop (nat (i + 1)) host
               in if \<not> validOptionalPort colonPort then Inl (invalid_port colonPort)
                  else
                    (let zone = Index (take (nat i) host) ''%25''
                     in if 0 \<le> zone then
                          (case unescape (take (nat zone) host) encodeHost of
                             Inl err \<Rightarrow> Inl err
                           | Inr host1 \<Rightarrow>
                               (case unescape (take (nat i - nat zone) (drop (nat zone) host))
                                       encodeZone of
                                  Inl err \<Rightarrow> Inl err
                                | Inr host2 \<Rightarrow>
                                    (case unescape (drop (nat i) host) encodeHost of
                                       Inl err \<Rightarrow> Inl err
                                     | Inr host3 \<Rightarrow> Inr (host1 @ host2 @ host3))))
                        else unescape host encodeHost)))
      else
        (let i = LastIndex host '':''
         in if i \<noteq> -1 \<and> \<not> validOptionalPort (drop (nat i) host) then
              Inl (invalid_port (drop (nat i) host))
            else unescape host encodeHost))"

definition parseAuthority :: "string \<Rightarrow> url_error + (Userinfo option \<times> string)" where
  "parseAuthority authority =
     (let i = LastIndex authority ''@''
      in case (if i < 0 then parseHost authority else parseHost (drop (nat (i + 1)) authority)) of
           Inl err \<Rightarrow> Inl err
         | Inr host \<Rightarrow>
             (if i < 0 then Inr (None, host)
              else
                (let userinfo = take (nat i) authority
                 in if \<not> validUserinfo userinfo then Inl invalid_userinfo
                    else if \<not> Contains userinfo '':'' then
                      (case unescape userinfo encodeUserPassword of
                         Inl err \<Rightarrow> Inl err
                       | Inr name \<Rightarrow> Inr (Some (url_User name), host))
                    else
                      (case split userinfo '':'' True of
                         (name0, pw0) \<Rightarrow>
                           (case unescape name0 encodeUserPassword of
                              Inl err \<Rightarrow> Inl err
                            | Inr name \<Rightarrow>
                                (case unescape pw0 encodeUserPassword of
                                   Inl err \<Rightarrow> Inl err
                                 | Inr pw \<Rightarrow> Inr (Some (url_UserPassword name pw), host)))))))"

text \<open>
  \<open>setPath\<close> sets \<open>Path\<close> and \<open>RawPath\<close>; \<open>RawPath\<close> stays empty when the default
  escaping of the path gives \<open>p\<close> back.
\<close>

definition setPath :: "URL \<Rightarrow> string \<Rightarrow> url_error + URL" where
  "setPath u p =
     (case unescape p encodePath of
        Inl err \<Rightarrow> Inl err
      | Inr path \<Rightarrow>
          Inr (u\<lparr>Path := path, RawPath := (if p = escape path encodePath then '''' else p)\<rparr>))"

definition validEncodedPath :: "string \<Rightarrow> bool" where
  "validEncodedPath s =
     list_all (\<lambda>c.
       c \<in> set [CHR ''!'', CHR ''$'', CHR ''&'', CHR 0x27, CHR ''('', CHR '')'', CHR ''*'',
                 CHR ''+'', CHR '','', CHR '';'', CHR ''='', CHR '':'', CHR ''@'',
                 CHR ''['', CHR '']'', CHR ''%'']
       \<or> \<not> shouldEscape c encodePath) s"

definition EscapedPath :: "URL \<Rightarrow> string" where
  "EscapedPath u =
     (if RawPath u \<noteq> '''' \<and> validEncodedPath (RawPath u) \<and>
         unescape (RawPath u) encodePath = Inr (Path u) then RawPath u
      else if Path u = ''*'' then ''*''
      else escape (Path u) encodePath)"

text \<open>
  \<open>parse\<close>, statement by statement. \<open>url.Parse\<close> calls it with \<open>viaRequest\<close> false.
\<close>

definition parse :: "string \<Rightarrow> bool \<Rightarrow> url_error + URL" where
  "parse rawurl viaRequest =
     (if stringContainsCTLByte rawurl then Inl invalid_control_character
      else if rawurl = '''' \<and> viaRequest then Inl empty_url
      else if rawurl = ''*'' then Inr (new_URL\<lparr>Path := ''*''\<rparr>)
      else
        (case getscheme rawurl of
           Inl err \<Rightarrow> Inl err
         | Inr (scheme, rest0) \<Rightarrow>
             (let url0 = new_URL\<lparr>Scheme := ToLower scheme\<rparr>;
                  (url, rest) =
                    (if HasSuffix rest0 ''?'' \<and> Count rest0 CHR ''?'' = 1 then
                       (url0\<lparr>ForceQuery := True\<rparr>, take (length rest0 - 1) rest0)
                     else
                       (case split rest0 ''?'' True of
                          (r, q) \<Rightarrow> (url0\<lparr>RawQuery := q\<rparr>, r)));
                  rootless = (\<not> HasPrefix rest ''/'');
                  colon = Index rest '':'';
                  slash = Index rest ''/''
              in if rootless \<and> Scheme url \<noteq> '''' then Inr (url\<lparr>Opaque := rest\<rparr>)
                 else if rootless \<and> viaRequest then Inl invalid_URI_for_request
                 else if rootless \<and> 0 \<le> colon \<and> (slash < 0 \<or> colon < slash) then
                   Inl first_path_segment_colon
                 else if (Scheme url \<noteq> '''' \<or> (\<not> viaRequest \<and> \<not> HasPrefix rest ''///'')) \<and>
                         HasPrefix rest ''//'' then
                   (case split (drop 2 rest) ''/'' False of
                      (authority, rest') \<Rightarrow>
                        (case parseAuthority authority of
                           Inl err \<Rightarrow> Inl err
                         | Inr (user, host) \<Rightarrow> setPath (url\<lparr>User := user, Host := host\<rparr>) rest'))
                 else setPath url rest)))"

text \<open>
  \<open>url.Parse\<close> cuts the fragment off first. It wraps the error of \<open>parse\<close> or of
  \<open>unescape\<close> into a \<open>*url.Error\<close> with the operation and the URL; the model returns
  the error that is wrapped.
\<close>

definition Parse :: "string \<Rightarrow> url_error + URL" where
  "Parse rawurl =
     (case split rawurl ''#'' True of
        (u, frag) \<Rightarrow>
          (case parse u False of
             Inl err \<Rightarrow> Inl err
           | Inr url \<Rightarrow>
               (if frag = '''' then Inr url
                else
                  (case unescape frag encodeFragment of
                     Inl err \<Rightarrow> Inl err
                   | Inr f \<Rightarrow> Inr (url\<lparr>Fragment := f\<rparr>)))))"

subsection \<open>Printing and resolving\<close>

text \<open>\<open>String\<close> writes into a buffer; \<open>buf\<close> is the buffer after each statement.\<close>

definition URL_String :: "URL \<Rightarrow> string" where
  "URL_String u =
     (let buf = (if Scheme u \<noteq> '''' then Scheme u @ '':'' else '''');
          buf =
            (if Opaque u \<noteq> '''' then buf @ Opaque u
             else
               (let buf =
                      (if Scheme u \<noteq> '''' \<or> Host u \<noteq> '''' \<or> User u \<noteq> None then
                         (let buf = (if Host u \<noteq> '''' \<or> Path u \<noteq> '''' \<or> User u \<noteq> None
                                     then buf @ ''//'' else buf);
                              buf = (case User u of
                                       Some ui \<Rightarrow> buf @ Userinfo_String ui @ ''@''
                                     | None \<Rightarrow> buf)
                          in if Host u \<noteq> '''' then buf @ escape (Host u) encodeHost else buf)
                       else buf);
                    path = EscapedPath u;
                    buf = (if path \<noteq> '''' \<and> hd path \<noteq> CHR ''/'' \<and> Host u \<noteq> ''''
                           then buf @ ''/'' else buf);
                    i = Index path '':'';
                    buf = (if length buf = 0 \<and> -1 < i \<and> Index (take (nat i) path) ''/'' = -1
                           then buf @ ''./'' else buf)
                in buf @ path));
          buf = (if ForceQuery u \<or> RawQuery u \<noteq> '''' then buf @ ''?'' @ RawQuery u else buf);
          buf = (if Fragment u \<noteq> '''' then buf @ ''#'' @ escape (Fragment u) encodeFragment
                 else buf)
      in buf)"

text \<open>
  \<open>resolvePath\<close> joins the reference to the directory of the base and removes the dot
  segments: \<open>dst\<close> is the slice of kept elements after the loop over \<open>src\<close>.
\<close>

definition resolvePath :: "string \<Rightarrow> string \<Rightarrow> string" where
  "resolvePath base ref =
     (let full = (if ref = '''' then base
                  else if hd ref \<noteq> CHR ''/'' then take (nat (LastIndex base ''/'' + 1)) base @ ref
                  else ref)
      in if full = '''' then ''''
         else
           (let src = Split full CHR ''/'';
                dst = foldl (\<lambda>dst elem.
                        if elem = ''.'' then dst
                        else if elem = ''..'' then (if 0 < length dst then butlast dst else dst)
                        else dst @ [elem]) [] src;
                dst = (if last src = ''.'' \<or> last src = ''..'' then dst @ [''''] else dst)
            in ''/'' @ TrimPrefix (Join dst ''/'') ''/''))"

text \<open>
  \<open>ResolveReference\<close> starts from a copy of \<open>ref\<close>. It ignores the error of
  \<open>setPath\<close>, which leaves the URL as it is when it fails.
\<close>

definition setPath_ignoring :: "URL \<Rightarrow> string \<Rightarrow> URL" where
  "setPath_ignoring u p = (case setPath u p of Inl _ \<Rightarrow> u | Inr u' \<Rightarrow> u')"

definition ResolveReference :: "URL \<Rightarrow> URL \<Rightarrow> URL" where
  "ResolveReference u ref =
     (let url = (if Scheme ref = '''' then ref\<lparr>Scheme := Scheme u\<rparr> else ref)
      in if Scheme ref \<noteq> '''' \<or> Host ref \<noteq> '''' \<or> User ref \<noteq> None then
           setPath_ignoring url (resolvePath (EscapedPath ref) '''')
         else if Opaque ref \<noteq> '''' then url\<lparr>User := None, Host := '''', Path := ''''\<rparr>
         else
           (let url = (if Path ref = '''' \<and> RawQuery ref = '''' then
                         (let url = url\<lparr>RawQuery := RawQuery u\<rparr>
                          in if Fragment ref = '''' then url\<lparr>Fragment := Fragment u\<rparr> else url)
                       else url);
                url = url\<lparr>Host := Host u, User := User u\<rparr>
            in setPath_ignoring url (resolvePath (EscapedPath u) (EscapedPath ref))))"

subsection \<open>The parts of a link\<close>



section \<open>Inputs to run the program on\<close>

text \<open>
  A stand-in for the imported packages, to run the program on given inputs. URLs are
  those of the section above. The path of an event is \<open>/events/\<close> and the name of its
  entity; an entity or a check is valid when its name is not empty; \<open>json.Unmarshal\<close>
  decodes the payloads of the table it is given and fails on every other one;
  \<open>json.Marshal\<close> gives the headline of the message; \<open>http.NewRequest\<close> fails when the
  URL does not parse; the network answers every request, and the body closes.
\<close>

definition test_extern :: "(string \<times> Decoded) list \<Rightarrow> (URL, url_error) extern" where
  "test_extern table =
     \<lparr>url_Parse = Parse,
      url_ResolveReference = ResolveReference,
      url_String = URL_String,
      Event_URIPath = (\<lambda>event. ''/events/'' @ Entity_Name (Event_Entity event)),
      Entity_Validate = (\<lambda>e. if Entity_Name e = ''''
                              then Some (errorString ''entity name must not be empty'') else None),
      Check_Validate = (\<lambda>c. if Check_Name c = ''''
                             then Some (errorString ''check name must not be empty'') else None),
      json_Unmarshal = (\<lambda>data. case map_of table data of
                                  None \<Rightarrow> Inl (errorString ''unexpected end of JSON input'')
                                | Some event \<Rightarrow> Inr event),
      json_Marshal = (\<lambda>m. Inr (Text m)),
      http_NewRequest = (\<lambda>method url body.
                           case Parse url of
                             Inl _ \<Rightarrow> Inl (errorString ''parse error'')
                           | Inr _ \<Rightarrow> Inr \<lparr>Request_Method = method, Request_URL = url,
                                            Request_Body = body, Request_Header = []\<rparr>),
      client_Do = (\<lambda>req. Inr \<lparr>Body_Close = None\<rparr>)\<rparr>"

definition test_event :: Event where
  "test_event =
     \<lparr>Event_Entity = \<lparr>Entity_Name = ''e1''\<rparr>,
      Event_Check = \<lparr>Check_Name = ''disk'', Check_Status = 2, Check_Output = ''disk full''\<rparr>\<rparr>"

definition test_payload :: string where
  "test_payload =
     ''{\"entity\":{\"name\":\"e1\"},\"check\":{\"name\":\"disk\",\"status\":2,\"output\":\"disk full\"}}''"

definition test_config :: config where
  "test_config =
     \<lparr>webhookURL = ''https://hooks.example.com/teams'', channel = ''#general'',
      messagePrefix = '''', iconURL = ''http://s3-us-west-2.amazonaws.com/sensuapp.org/sensu.png'',
      actionName = ''View in Sensu'', dashboard = ''https://dash.example.com/''\<rparr>"

text \<open>What the decoder makes of \<open>test_payload\<close>: both pointers are set.\<close>

definition test_decoded :: Decoded where
  "test_decoded =
     \<lparr>Decoded_Entity = Some (Event_Entity test_event),
      Decoded_Check = Some (Event_Check test_event)\<rparr>"

text \<open>What the decoder makes of the payload \<open>{}\<close>: both pointers are \<open>nil\<close>.\<close>

definition empty_decoded :: Decoded where
  "empty_decoded = \<lparr>Decoded_Entity = None, Decoded_Check = None\<rparr>"

text \<open>The stand-in with a given string as the path of every event.\<close>

definition path_extern :: "string \<Rightarrow> (URL, url_error) extern" where
  "path_extern p = (test_extern [])\<lparr>Event_URIPath := (\<lambda>event. p)\<rparr>"


text \<open>An event with a given status and nothing else of interest.\<close>

definition status_event :: "int \<Rightarrow> Event" where
  "status_event s = test_event\<lparr>Event_Check := (Event_Check test_event)\<lparr>Check_Status := s\<rparr>\<rparr>"

section \<open>Properties of the message\<close>

text \<open>The message that \<open>NewEventMessage\<close> returns, field by field.\<close>

lemma NewEventMessage_fields:
  "NewEventMessage ex cfg event =
     \<lparr>ThemeColor = getColor event, Text = getMessageStatus event, Channel = channel cfg,
      Sections = [\<lparr>Section_Text = Check_Output (Event_Check event)\<rparr>],
      PotentialActions =
        [\<lparr>Action_Type = ''OpenUri'', Action_Name = ''View in Sensu'',
          Action_Targets = [\<lparr>Target_OS = ''default'', Target_URI = getLink ex cfg event\<rparr>]\<rparr>]\<rparr>"
  by (simp add: NewEventMessage_def Let_def)

lemma getLink_parse_error:
  "(\<exists>e. url_Parse ex (dashboard cfg) = Inl e) \<or>
   (\<exists>e. url_Parse ex (Event_URIPath ex event) = Inl e) \<Longrightarrow>
   getLink ex cfg event = ''''"
  by (auto simp: getLink_def split: sum.splits)

lemma getLink_parsed:
  "url_Parse ex (dashboard cfg) = Inr base \<Longrightarrow>
   url_Parse ex (Event_URIPath ex event) = Inr ref \<Longrightarrow>
   getLink ex cfg event = url_String ex (url_ResolveReference ex base ref)"
  by (simp add: getLink_def)

lemma getLink_unused_config:
  "getLink ex (cfg\<lparr>messagePrefix := p, actionName := a\<rparr>) event = getLink ex cfg event"
  by (simp add: getLink_def)

text \<open>
  Claim C1. \<open>getColor\<close> and \<open>getMessageStatus\<close> have a value for every status: status 0
  gives \<open>#36A64F\<close> and \<open>RESOLVED\<close>, status 1 gives \<open>#FFCC00\<close> and \<open>WARNING\<close>, status 2
  gives \<open>#FF0000\<close> and \<open>CRITICAL\<close>, and every other integer, negative or large, gives
  \<open>#6600CC\<close> and \<open>UNKNOWN\<close>. Neither function has a branch that fails.
\<close>

theorem status_mapping:
  "(Check_Status (Event_Check event) = 0 \<longrightarrow>
      getColor event = ''#36A64F'' \<and> getMessageStatus event = ''RESOLVED'') \<and>
   (Check_Status (Event_Check event) = 1 \<longrightarrow>
      getColor event = ''#FFCC00'' \<and> getMessageStatus event = ''WARNING'') \<and>
   (Check_Status (Event_Check event) = 2 \<longrightarrow>
      getColor event = ''#FF0000'' \<and> getMessageStatus event = ''CRITICAL'') \<and>
   (Check_Status (Event_Check event) \<notin> {0, 1, 2} \<longrightarrow>
      getColor event = ''#6600CC'' \<and> getMessageStatus event = ''UNKNOWN'')"
  by (simp add: getColor_def getMessageStatus_def Let_def)

theorem status_mapping_witness:
  "getColor (status_event 0) = ''#36A64F'' \<and> getMessageStatus (status_event 0) = ''RESOLVED'' \<and>
   getColor (status_event 1) = ''#FFCC00'' \<and> getMessageStatus (status_event 1) = ''WARNING'' \<and>
   getColor (status_event 2) = ''#FF0000'' \<and> getMessageStatus (status_event 2) = ''CRITICAL'' \<and>
   getColor (status_event (-1)) = ''#6600CC'' \<and>
   getMessageStatus (status_event (-1)) = ''UNKNOWN'' \<and>
   getColor (status_event 3) = ''#6600CC'' \<and> getMessageStatus (status_event 3) = ''UNKNOWN'' \<and>
   getColor (status_event 999) = ''#6600CC'' \<and>
   getMessageStatus (status_event 999) = ''UNKNOWN''"
  using status_mapping [of "status_event 0"] status_mapping [of "status_event 1"]
    status_mapping [of "status_event 2"] status_mapping [of "status_event (-1)"]
    status_mapping [of "status_event 3"] status_mapping [of "status_event 999"]
  by (simp add: status_event_def)

text \<open>
  Claim C2. For an event whose check has status 2 and output \<open>disk full\<close>, the message
  has the theme colour \<open>#FF0000\<close>, the text \<open>CRITICAL\<close> and exactly one section, whose
  text is \<open>disk full\<close>. This holds whatever the packages and the configuration are, so
  for every valid event in particular.
\<close>

theorem critical_message:
  assumes "Check_Status (Event_Check event) = 2"
    and "Check_Output (Event_Check event) = ''disk full''"
  shows "ThemeColor (NewEventMessage ex cfg event) = ''#FF0000'' \<and>
         Text (NewEventMessage ex cfg event) = ''CRITICAL'' \<and>
         Sections (NewEventMessage ex cfg event) = [\<lparr>Section_Text = ''disk full''\<rparr>]"
  using assms by (simp add: NewEventMessage_fields getColor_def getMessageStatus_def)

theorem critical_message_witness:
  "Entity_Validate (test_extern []) (Event_Entity test_event) = None \<and>
   Check_Validate (test_extern []) (Event_Check test_event) = None \<and>
   Check_Status (Event_Check test_event) = 2 \<and>
   Check_Output (Event_Check test_event) = ''disk full'' \<and>
   ThemeColor (NewEventMessage (test_extern []) test_config test_event) = ''#FF0000'' \<and>
   Text (NewEventMessage (test_extern []) test_config test_event) = ''CRITICAL'' \<and>
   Sections (NewEventMessage (test_extern []) test_config test_event) =
     [\<lparr>Section_Text = ''disk full''\<rparr>]"
  using critical_message [of test_event "test_extern []" test_config]
  by (simp add: test_event_def test_extern_def)

text \<open>
  Claim C10. The message, and with it the body that \<open>sendMessage\<close> posts and all that
  \<open>sendMessage\<close> does, is the same under any two values of \<open>messagePrefix\<close> and
  \<open>actionName\<close>: neither variable reaches a field of the message, and the name of the
  action is the literal \<open>View in Sensu\<close>.
\<close>

theorem prefix_and_action_name_unused:
  "NewEventMessage ex (cfg\<lparr>messagePrefix := p, actionName := a\<rparr>) event =
     NewEventMessage ex (cfg\<lparr>messagePrefix := q, actionName := b\<rparr>) event \<and>
   json_Marshal ex (NewEventMessage ex (cfg\<lparr>messagePrefix := p, actionName := a\<rparr>) event) =
     json_Marshal ex (NewEventMessage ex (cfg\<lparr>messagePrefix := q, actionName := b\<rparr>) event) \<and>
   sendMessage ex (cfg\<lparr>messagePrefix := p, actionName := a\<rparr>) event =
     sendMessage ex (cfg\<lparr>messagePrefix := q, actionName := b\<rparr>) event \<and>
   map Action_Name
     (PotentialActions (NewEventMessage ex (cfg\<lparr>messagePrefix := p, actionName := a\<rparr>) event)) =
     [''View in Sensu'']"
  by (simp add: NewEventMessage_fields sendMessage_def getLink_unused_config)

section \<open>The net/url functions on given strings\<close>

lemma Parse_dashboard:
  "Parse ''https://dash.example.com/'' =
     Inr (new_URL\<lparr>Scheme := ''https'', Host := ''dash.example.com'', Path := ''/''\<rparr>)"
  by code_simp

lemma Parse_events_e1: "Parse ''/events/e1'' = Inr (new_URL\<lparr>Path := ''/events/e1''\<rparr>)"
  by code_simp

lemma Parse_webhook:
  "Parse ''https://hooks.example.com/teams'' =
     Inr (new_URL\<lparr>Scheme := ''https'', Host := ''hooks.example.com'', Path := ''/teams''\<rparr>)"
  by code_simp

lemma Parse_not_a_url:
  "Parse ''not a url'' = Inr (new_URL\<lparr>Path := ''not a url'', RawPath := ''not a url''\<rparr>)"
  by code_simp

lemma Parse_colon_foo: "Parse '':foo'' = Inl missing_protocol_scheme"
  by code_simp

lemma Resolve_events_e1:
  "URL_String (ResolveReference
     (new_URL\<lparr>Scheme := ''https'', Host := ''dash.example.com'', Path := ''/''\<rparr>)
     (new_URL\<lparr>Path := ''/events/e1''\<rparr>)) = ''https://dash.example.com/events/e1''"
  by code_simp

lemma getLink_test_event:
  "getLink (test_extern []) test_config test_event = ''https://dash.example.com/events/e1''"
  by (simp add: getLink_def test_extern_def test_config_def test_event_def
      Parse_dashboard Parse_events_e1 Resolve_events_e1)

text \<open>
  Claim C5. The message has exactly one action, of type \<open>OpenUri\<close> and with the name
  \<open>View in Sensu\<close>; the action has exactly one target, whose \<open>os\<close> is \<open>default\<close> and
  whose \<open>uri\<close> is the link of \<open>getLink\<close>: the dashboard link when both URLs parse, the
  empty string when one of them does not.
\<close>

theorem single_action:
  "PotentialActions (NewEventMessage ex cfg event) =
     [\<lparr>Action_Type = ''OpenUri'', Action_Name = ''View in Sensu'',
       Action_Targets = [\<lparr>Target_OS = ''default'', Target_URI = getLink ex cfg event\<rparr>]\<rparr>] \<and>
   ((\<exists>e. url_Parse ex (dashboard cfg) = Inl e) \<or>
    (\<exists>e. url_Parse ex (Event_URIPath ex event) = Inl e) \<longrightarrow>
      getLink ex cfg event = '''') \<and>
   (\<forall>base ref. url_Parse ex (dashboard cfg) = Inr base \<and>
      url_Parse ex (Event_URIPath ex event) = Inr ref \<longrightarrow>
      getLink ex cfg event = url_String ex (url_ResolveReference ex base ref))"
  by (simp add: NewEventMessage_fields getLink_parse_error getLink_parsed)

theorem single_action_witness:
  "PotentialActions (NewEventMessage (test_extern []) test_config test_event) =
     [\<lparr>Action_Type = ''OpenUri'', Action_Name = ''View in Sensu'',
       Action_Targets = [\<lparr>Target_OS = ''default'',
                          Target_URI = ''https://dash.example.com/events/e1''\<rparr>]\<rparr>] \<and>
   PotentialActions
     (NewEventMessage (test_extern []) (test_config\<lparr>dashboard := '':foo''\<rparr>) test_event) =
     [\<lparr>Action_Type = ''OpenUri'', Action_Name = ''View in Sensu'',
       Action_Targets = [\<lparr>Target_OS = ''default'', Target_URI = ''''\<rparr>]\<rparr>]"
proof -
  have bad: "url_Parse (test_extern []) (dashboard (test_config\<lparr>dashboard := '':foo''\<rparr>)) =
               Inl missing_protocol_scheme"
    by (simp add: test_extern_def Parse_colon_foo)
  from single_action [of "test_extern []" "test_config\<lparr>dashboard := '':foo''\<rparr>" test_event] bad
  have "getLink (test_extern []) (test_config\<lparr>dashboard := '':foo''\<rparr>) test_event = ''''"
    by blast
  with single_action [of "test_extern []" "test_config\<lparr>dashboard := '':foo''\<rparr>" test_event]
    single_action [of "test_extern []" test_config test_event]
  show ?thesis by (simp add: getLink_test_event)
qed

section \<open>Properties of the command\<close>

lemma run_not_started:
  "args \<noteq> [] \<or> webhookURL cfg = '''' \<Longrightarrow>
   run ex cfg stdin args =
     (Return (Some (errorString (if args \<noteq> [] then ''invalid argument(s) received''
                                 else ''webhook url is empty''))), [Help])"
  by (auto simp: run_def)

lemma run_decode_error:
  "webhookURL cfg \<noteq> '''' \<Longrightarrow> json_Unmarshal ex payload = Inl err \<Longrightarrow>
   run ex cfg (Inr payload) [] =
     (Return (Some (errorString (''failed to unmarshal stdin data: '' @ payload))), [ReadStdin])"
  by (simp add: run_def)

lemma Event_eta:
  "\<lparr>Event_Entity = Event_Entity event, Event_Check = Event_Check event\<rparr> = (event :: Event)"
  by (cases event) simp

lemma run_valid_event:
  assumes "webhookURL cfg \<noteq> ''''"
    and "json_Unmarshal ex payload = Inr decoded"
    and "Decoded_Entity decoded = Some (Event_Entity event)"
    and "Decoded_Check decoded = Some (Event_Check event)"
    and "Entity_Validate ex (Event_Entity event) = None"
    and "Check_Validate ex (Event_Check event) = None"
  shows "run ex cfg (Inr payload) [] =
           (case sendMessage ex cfg event of
              (Panic p, effs) \<Rightarrow> (Panic p, ReadStdin # effs)
            | (Return (Some err), effs) \<Rightarrow>
                (Return (Some (errorString (Error err))), ReadStdin # effs)
            | (Return None, effs) \<Rightarrow> (Return None, ReadStdin # effs))"
  using assms by (simp add: run_def Event_eta)

lemma sendMessage_ok:
  assumes "http_NewRequest ex ''POST'' (webhookURL cfg)
             (case json_Marshal ex (NewEventMessage ex cfg event) of
                Inl _ \<Rightarrow> '''' | Inr s \<Rightarrow> s) = Inr req"
    and "client_Do ex (req\<lparr>Request_Header :=
            Header_Set ''Content-Type'' ''application/json'' (Request_Header req)\<rparr>) = Inr resp"
    and "Body_Close resp = None"
  shows "sendMessage ex cfg event =
           (Return None, [HTTPDo (req\<lparr>Request_Header :=
              Header_Set ''Content-Type'' ''application/json'' (Request_Header req)\<rparr>)])"
  using assms by (simp add: sendMessage_def Let_def)

lemma sendMessage_no_request:
  assumes "http_NewRequest ex ''POST'' (webhookURL cfg)
             (case json_Marshal ex (NewEventMessage ex cfg event) of
                Inl _ \<Rightarrow> '''' | Inr s \<Rightarrow> s) = Inl err"
  shows "sendMessage ex cfg event = (Panic nil_pointer_dereference, [])"
  using assms by (simp add: sendMessage_def Let_def)

lemma sendMessage_no_response:
  assumes "http_NewRequest ex ''POST'' (webhookURL cfg)
             (case json_Marshal ex (NewEventMessage ex cfg event) of
                Inl _ \<Rightarrow> '''' | Inr s \<Rightarrow> s) = Inr req"
    and "client_Do ex (req\<lparr>Request_Header :=
            Header_Set ''Content-Type'' ''application/json'' (Request_Header req)\<rparr>) = Inl err"
  shows "sendMessage ex cfg event =
           (Panic (panic_error err), [HTTPDo (req\<lparr>Request_Header :=
              Header_Set ''Content-Type'' ''application/json'' (Request_Header req)\<rparr>)])"
  using assms by (simp add: sendMessage_def Let_def)

text \<open>
  When the event has an entity and a check and one of the two validators returns an
  error, \<open>run\<close> returns that error, the very value, and has only read standard input.
  The entity is validated first.
\<close>

lemma validation_failure:
  assumes "webhookURL cfg \<noteq> ''''"
    and "json_Unmarshal ex payload = Inr decoded"
    and "Decoded_Entity decoded = Some entity"
    and "Entity_Validate ex entity = Some err \<or>
         (Entity_Validate ex entity = None \<and> Decoded_Check decoded = Some check \<and>
          Check_Validate ex check = Some err)"
  shows "run ex cfg (Inr payload) [] = (Return (Some err), [ReadStdin])"
  using assms by (auto simp: run_def)

lemma validation_failure_nameless_entity:
  "run (test_extern
          [(''{\"entity\":{},\"check\":{\"name\":\"disk\"}}'',
            test_decoded\<lparr>Decoded_Entity := Some \<lparr>Entity_Name = ''''\<rparr>\<rparr>)])
       test_config (Inr ''{\"entity\":{},\"check\":{\"name\":\"disk\"}}'') [] =
     (Return (Some (errorString ''entity name must not be empty'')), [ReadStdin])"
  by (simp add: run_def test_extern_def test_config_def test_decoded_def)

text \<open>
  Claim C6. When the payload read from standard input does not decode, \<open>run\<close> returns
  an error and makes no HTTP call, whatever the arguments and the configuration are; and
  when \<open>run\<close> gets as far as decoding (no argument, a webhook URL), the error is the
  message \<open>failed to unmarshal stdin data: \<close> followed by the payload, and reading
  standard input is all that \<open>run\<close> has done.
\<close>

theorem decode_failure:
  assumes "json_Unmarshal ex payload = Inl err"
  shows "(\<forall>req. HTTPDo req \<notin> set (snd (run ex cfg (Inr payload) args))) \<and>
         (\<exists>e. fst (run ex cfg (Inr payload) args) = Return (Some e)) \<and>
         (args = [] \<and> webhookURL cfg \<noteq> '''' \<longrightarrow>
            run ex cfg (Inr payload) args =
              (Return (Some (errorString (''failed to unmarshal stdin data: '' @ payload))),
               [ReadStdin]))"
proof (cases "args \<noteq> [] \<or> webhookURL cfg = ''''")
  case True
  then show ?thesis by (auto simp: run_not_started)
next
  case False
  with assms show ?thesis by (simp add: run_decode_error)
qed

theorem decode_failure_witness:
  "json_Unmarshal (test_extern []) ''{\"entity\":'' =
     Inl (errorString ''unexpected end of JSON input'') \<and>
   run (test_extern []) test_config (Inr ''{\"entity\":'') [] =
     (Return (Some (errorString ''failed to unmarshal stdin data: {\"entity\":'')), [ReadStdin])"
  using decode_failure [of "test_extern []" "''{\"entity\":''"
      "errorString ''unexpected end of JSON input''" test_config "[]"]
  by (simp add: test_extern_def test_config_def)

text \<open>
  Claim C7. With an empty webhook URL, \<open>run\<close> returns an error about the command line
  after printing the usage and nothing else: standard input is not read and no HTTP call
  is made, whatever standard input holds. The error is \<open>webhook url is empty\<close>, or
  \<open>invalid argument(s) received\<close> when the command line also has an argument that is
  not a flag, which \<open>run\<close> tests first. The process ends with status 1.
\<close>

theorem empty_webhook:
  assumes "webhookURL cfg = ''''"
  shows "run ex cfg stdin args =
           (Return (Some (errorString (if args \<noteq> [] then ''invalid argument(s) received''
                                       else ''webhook url is empty''))), [Help]) \<and>
         ReadStdin \<notin> set (snd (run ex cfg stdin args)) \<and>
         (\<forall>req. HTTPDo req \<notin> set (snd (run ex cfg stdin args))) \<and>
         status (fst (main ex cfg stdin args)) = 1 \<and>
         (\<exists>m. message (fst (main ex cfg stdin args)) = Some m)"
  using assms by (simp add: run_not_started main_def)

theorem empty_webhook_witness:
  "json_Unmarshal (test_extern [(test_payload, test_decoded)]) test_payload = Inr test_decoded \<and>
   run (test_extern [(test_payload, test_decoded)]) (test_config\<lparr>webhookURL := ''''\<rparr>)
       (Inr test_payload) [] =
     (Return (Some (errorString ''webhook url is empty'')), [Help]) \<and>
   main (test_extern [(test_payload, test_decoded)]) (test_config\<lparr>webhookURL := ''''\<rparr>)
       (Inr test_payload) [] =
     (\<lparr>status = 1, message = Some ''webhook url is empty''\<rparr>, [Help])"
  using empty_webhook [of "test_config\<lparr>webhookURL := ''''\<rparr>"
      "test_extern [(test_payload, test_decoded)]" "Inr test_payload" "[]"]
  by (simp add: test_extern_def main_def)

text \<open>
  Claim C8 does not hold of the program. A payload that decodes and has no entity, or
  has a valid entity and no check, is an event that fails validation, yet \<open>run\<close> returns
  no error of a validator: the call of \<open>Validate\<close> on the \<open>nil\<close> pointer panics, and the
  process ends with status 2 and the message of the runtime. No HTTP call is made.
\<close>

theorem missing_entity_panics:
  assumes "webhookURL cfg \<noteq> ''''"
    and "json_Unmarshal ex payload = Inr decoded"
    and "Decoded_Entity decoded = None \<or>
         (\<exists>entity. Decoded_Entity decoded = Some entity \<and> Entity_Validate ex entity = None \<and>
            Decoded_Check decoded = None)"
  shows "run ex cfg (Inr payload) [] = (Panic nil_pointer_dereference, [ReadStdin]) \<and>
         main ex cfg (Inr payload) [] =
           (\<lparr>status = 2,
             message = Some ''panic: runtime error: invalid memory address or nil pointer dereference''\<rparr>,
            [ReadStdin])"
  using assms by (auto simp: run_def main_def)

theorem missing_entity_panics_witness:
  "json_Unmarshal (test_extern [(''{}'', empty_decoded)]) ''{}'' = Inr empty_decoded \<and>
   run (test_extern [(''{}'', empty_decoded)]) test_config (Inr ''{}'') [] =
     (Panic nil_pointer_dereference, [ReadStdin]) \<and>
   main (test_extern [(''{}'', empty_decoded)]) test_config (Inr ''{}'') [] =
     (\<lparr>status = 2,
       message = Some ''panic: runtime error: invalid memory address or nil pointer dereference''\<rparr>,
      [ReadStdin])"
  using missing_entity_panics
      [of test_config "test_extern [(''{}'', empty_decoded)]" "''{}''" empty_decoded]
  by (simp add: test_extern_def test_config_def empty_decoded_def)

text \<open>
  Claim C9. When the event is valid and the request cannot be built
  (\<open>http.NewRequest\<close> fails) or cannot be executed (\<open>client.Do\<close> fails), \<open>run\<close> does
  not return: \<open>sendMessage\<close> panics, and the process ends with the non-zero status 2 and
  the message of the panic on standard error, not with success. When the request cannot be
  built the panic is the dereference of the \<open>nil\<close> request and no HTTP call is made; when
  it cannot be executed the panic is \<open>panic(err)\<close>, and the message is \<open>panic: \<close>
  followed by the text of the error of \<open>client.Do\<close>.
\<close>

theorem send_failure_is_fatal:
  assumes "webhookURL cfg \<noteq> ''''"
    and "json_Unmarshal ex payload = Inr decoded"
    and "Decoded_Entity decoded = Some (Event_Entity event)"
    and "Decoded_Check decoded = Some (Event_Check event)"
    and "Entity_Validate ex (Event_Entity event) = None"
    and "Check_Validate ex (Event_Check event) = None"
  shows "(\<forall>err. http_NewRequest ex ''POST'' (webhookURL cfg)
            (case json_Marshal ex (NewEventMessage ex cfg event) of
               Inl _ \<Rightarrow> '''' | Inr s \<Rightarrow> s) = Inl err \<longrightarrow>
            run ex cfg (Inr payload) [] = (Panic nil_pointer_dereference, [ReadStdin]) \<and>
            main ex cfg (Inr payload) [] =
              (\<lparr>status = 2,
                message = Some ''panic: runtime error: invalid memory address or nil pointer dereference''\<rparr>,
               [ReadStdin])) \<and>
         (\<forall>req err. http_NewRequest ex ''POST'' (webhookURL cfg)
            (case json_Marshal ex (NewEventMessage ex cfg event) of
               Inl _ \<Rightarrow> '''' | Inr s \<Rightarrow> s) = Inr req \<and>
            client_Do ex (req\<lparr>Request_Header :=
              Header_Set ''Content-Type'' ''application/json'' (Request_Header req)\<rparr>) = Inl err \<longrightarrow>
            run ex cfg (Inr payload) [] =
              (Panic (panic_error err),
               [ReadStdin, HTTPDo (req\<lparr>Request_Header :=
                  Header_Set ''Content-Type'' ''application/json'' (Request_Header req)\<rparr>)]) \<and>
            main ex cfg (Inr payload) [] =
              (\<lparr>status = 2, message = Some (''panic: '' @ Error err)\<rparr>,
               [ReadStdin, HTTPDo (req\<lparr>Request_Header :=
                  Header_Set ''Content-Type'' ''application/json'' (Request_Header req)\<rparr>)]))"
proof (intro conjI allI impI)
  fix err
  assume "http_NewRequest ex ''POST'' (webhookURL cfg)
            (case json_Marshal ex (NewEventMessage ex cfg event) of
               Inl _ \<Rightarrow> '''' | Inr s \<Rightarrow> s) = Inl err"
  then have "sendMessage ex cfg event = (Panic nil_pointer_dereference, [])"
    by (rule sendMessage_no_request)
  with run_valid_event [OF assms]
  show r: "run ex cfg (Inr payload) [] = (Panic nil_pointer_dereference, [ReadStdin])"
    by simp
  show "main ex cfg (Inr payload) [] =
          (\<lparr>status = 2,
            message = Some ''panic: runtime error: invalid memory address or nil pointer dereference''\<rparr>,
           [ReadStdin])"
    by (simp add: main_def r)
next
  fix req err
  assume "http_NewRequest ex ''POST'' (webhookURL cfg)
            (case json_Marshal ex (NewEventMessage ex cfg event) of
               Inl _ \<Rightarrow> '''' | Inr s \<Rightarrow> s) = Inr req \<and>
          client_Do ex (req\<lparr>Request_Header :=
            Header_Set ''Content-Type'' ''application/json'' (Request_Header req)\<rparr>) = Inl err"
  then have "sendMessage ex cfg event =
           (Panic (panic_error err), [HTTPDo (req\<lparr>Request_Header :=
              Header_Set ''Content-Type'' ''application/json'' (Request_Header req)\<rparr>)])"
    by (simp add: sendMessage_no_response)
  with run_valid_event [OF assms]
  show r: "run ex cfg (Inr payload) [] =
          (Panic (panic_error err),
           [ReadStdin, HTTPDo (req\<lparr>Request_Header :=
              Header_Set ''Content-Type'' ''application/json'' (Request_Header req)\<rparr>)])"
    by simp
  show "main ex cfg (Inr payload) [] =
          (\<lparr>status = 2, message = Some (''panic: '' @ Error err)\<rparr>,
           [ReadStdin, HTTPDo (req\<lparr>Request_Header :=
              Header_Set ''Content-Type'' ''application/json'' (Request_Header req)\<rparr>)])"
    by (simp add: main_def r)
qed

theorem send_failure_is_fatal_witness:
  "main (test_extern [(test_payload, test_decoded)])
        (test_config\<lparr>webhookURL := '':foo''\<rparr>) (Inr test_payload) [] =
     (\<lparr>status = 2,
       message = Some ''panic: runtime error: invalid memory address or nil pointer dereference''\<rparr>,
      [ReadStdin]) \<and>
   main ((test_extern [(test_payload, test_decoded)])
           \<lparr>client_Do := (\<lambda>_. Inl (errorString ''connection refused''))\<rparr>)
        test_config (Inr test_payload) [] =
     (\<lparr>status = 2, message = Some ''panic: connection refused''\<rparr>,
      [ReadStdin,
       HTTPDo \<lparr>Request_Method = ''POST'', Request_URL = ''https://hooks.example.com/teams'',
               Request_Body = ''CRITICAL'',
               Request_Header = [(''Content-Type'', [''application/json''])]\<rparr>])"
proof -
  let ?ex = "test_extern [(test_payload, test_decoded)]"
  let ?down = "?ex\<lparr>client_Do := (\<lambda>_. Inl (errorString ''connection refused''))\<rparr>"
  let ?cfg = "test_config\<lparr>webhookURL := '':foo''\<rparr>"
  let ?req = "\<lparr>Request_Method = ''POST'', Request_URL = ''https://hooks.example.com/teams'',
               Request_Body = ''CRITICAL'', Request_Header = []\<rparr>"
  have a1: "webhookURL ?cfg \<noteq> ''''" by simp
  have a2: "json_Unmarshal ?ex test_payload = Inr test_decoded"
    by (simp add: test_extern_def)
  have a3: "Decoded_Entity test_decoded = Some (Event_Entity test_event)"
    by (simp add: test_decoded_def)
  have a4: "Decoded_Check test_decoded = Some (Event_Check test_event)"
    by (simp add: test_decoded_def)
  have a5: "Entity_Validate ?ex (Event_Entity test_event) = None"
    by (simp add: test_extern_def test_event_def)
  have a6: "Check_Validate ?ex (Event_Check test_event) = None"
    by (simp add: test_extern_def test_event_def)
  have a7: "http_NewRequest ?ex ''POST'' (webhookURL ?cfg)
            (case json_Marshal ?ex (NewEventMessage ?ex ?cfg test_event) of
               Inl _ \<Rightarrow> '''' | Inr s \<Rightarrow> s) = Inl (errorString ''parse error'')"
    by (simp add: test_extern_def Parse_colon_foo)
  have b1: "webhookURL test_config \<noteq> ''''" by (simp add: test_config_def)
  have b2: "json_Unmarshal ?down test_payload = Inr test_decoded"
    by (simp add: test_extern_def)
  have b5: "Entity_Validate ?down (Event_Entity test_event) = None"
    by (simp add: test_extern_def test_event_def)
  have b6: "Check_Validate ?down (Event_Check test_event) = None"
    by (simp add: test_extern_def test_event_def)
  have b7: "http_NewRequest ?down ''POST'' (webhookURL test_config)
            (case json_Marshal ?down (NewEventMessage ?down test_config test_event) of
               Inl _ \<Rightarrow> '''' | Inr s \<Rightarrow> s) = Inr ?req \<and>
            client_Do ?down (?req\<lparr>Request_Header :=
              Header_Set ''Content-Type'' ''application/json'' (Request_Header ?req)\<rparr>) =
              Inl (errorString ''connection refused'')"
    by (simp add: test_extern_def test_config_def test_event_def Parse_webhook
        NewEventMessage_fields getMessageStatus_def)
  from send_failure_is_fatal [OF a1 a2 a3 a4 a5 a6] a7
  have first: "main ?ex ?cfg (Inr test_payload) [] =
     (\<lparr>status = 2,
       message = Some ''panic: runtime error: invalid memory address or nil pointer dereference''\<rparr>,
      [ReadStdin])"
    by blast
  from send_failure_is_fatal [OF b1 b2 a3 a4 b5 b6] b7
  have "main ?down test_config (Inr test_payload) [] =
     (\<lparr>status = 2, message = Some (''panic: '' @ Error (errorString ''connection refused''))\<rparr>,
      [ReadStdin, HTTPDo (?req\<lparr>Request_Header :=
         Header_Set ''Content-Type'' ''application/json'' (Request_Header ?req)\<rparr>)])"
    by blast
  with first show ?thesis by (simp add: Header_Set_def)
qed

section \<open>Properties of the net/url functions\<close>
















lemma setPath_ignoring_Path:
  "unescape p encodePath = Inr q \<Longrightarrow> Path (setPath_ignoring u p) = q"
  by (simp add: setPath_ignoring_def setPath_def)



























































section \<open>Links of given strings\<close>





lemma getLink_base_not_a_url:
  "getLink (test_extern []) (test_config\<lparr>dashboard := ''not a url''\<rparr>) test_event =
     ''/events/e1''"
  by code_simp

text \<open>
  The same with \<open>not a url\<close> as the path of the event: it is a relative path, which
  \<open>ResolveReference\<close> joins to the directory of the base and \<open>String\<close> escapes.
\<close>

lemma getLink_path_not_a_url:
  "getLink (path_extern ''not a url'') test_config test_event =
     ''https://dash.example.com/not%20a%20url''"
  by code_simp



section \<open>Properties of the link\<close>




text \<open>
  Claim C4, as amended. When \<open>url.Parse\<close> returns an error for the dashboard URL or for
  the path of the event, the link is the empty string, the message is composed with an
  empty \<open>uri\<close>, and delivery goes on: for a valid event and a network that answers,
  \<open>run\<close> makes the one HTTP call and returns no error. The strings that \<open>url.Parse\<close>
  refuses are fewer than the claim supposes: \<open>not a url\<close> parses, as a relative path, and
  the link is then not empty.
\<close>

theorem link_failure_is_soft:
  assumes "(\<exists>e. url_Parse ex (dashboard cfg) = Inl e) \<or>
           (\<exists>e. url_Parse ex (Event_URIPath ex event) = Inl e)"
  shows "getLink ex cfg event = '''' \<and>
         PotentialActions (NewEventMessage ex cfg event) =
           [\<lparr>Action_Type = ''OpenUri'', Action_Name = ''View in Sensu'',
             Action_Targets = [\<lparr>Target_OS = ''default'', Target_URI = ''''\<rparr>]\<rparr>] \<and>
         (webhookURL cfg \<noteq> '''' \<and> json_Unmarshal ex payload = Inr decoded \<and>
          Decoded_Entity decoded = Some (Event_Entity event) \<and>
          Decoded_Check decoded = Some (Event_Check event) \<and>
          Entity_Validate ex (Event_Entity event) = None \<and>
          Check_Validate ex (Event_Check event) = None \<and>
          http_NewRequest ex ''POST'' (webhookURL cfg)
            (case json_Marshal ex (NewEventMessage ex cfg event) of
               Inl _ \<Rightarrow> '''' | Inr s \<Rightarrow> s) = Inr req \<and>
          client_Do ex (req\<lparr>Request_Header :=
            Header_Set ''Content-Type'' ''application/json'' (Request_Header req)\<rparr>) = Inr resp \<and>
          Body_Close resp = None \<longrightarrow>
          run ex cfg (Inr payload) [] =
            (Return None, [ReadStdin, HTTPDo (req\<lparr>Request_Header :=
               Header_Set ''Content-Type'' ''application/json'' (Request_Header req)\<rparr>)]) \<and>
          status (fst (main ex cfg (Inr payload) [])) = 0)"
proof -
  have link: "getLink ex cfg event = ''''"
    using assms by (rule getLink_parse_error)
  have msg: "PotentialActions (NewEventMessage ex cfg event) =
           [\<lparr>Action_Type = ''OpenUri'', Action_Name = ''View in Sensu'',
             Action_Targets = [\<lparr>Target_OS = ''default'', Target_URI = ''''\<rparr>]\<rparr>]"
    by (simp add: NewEventMessage_fields link)
  show ?thesis
    by (intro conjI impI; (elim conjE)?)
       (simp_all add: link msg run_valid_event sendMessage_ok main_def)
qed

theorem link_failure_is_soft_witness:
  "url_Parse (test_extern [(test_payload, test_decoded)])
     (dashboard (test_config\<lparr>dashboard := '':foo''\<rparr>)) = Inl missing_protocol_scheme \<and>
   getLink (test_extern [(test_payload, test_decoded)])
     (test_config\<lparr>dashboard := '':foo''\<rparr>) test_event = '''' \<and>
   run (test_extern [(test_payload, test_decoded)]) (test_config\<lparr>dashboard := '':foo''\<rparr>)
       (Inr test_payload) [] =
     (Return None,
      [ReadStdin,
       HTTPDo \<lparr>Request_Method = ''POST'', Request_URL = ''https://hooks.example.com/teams'',
               Request_Body = ''CRITICAL'',
               Request_Header = [(''Content-Type'', [''application/json''])]\<rparr>])"
proof -
  let ?ex = "test_extern [(test_payload, test_decoded)]"
  let ?cfg = "test_config\<lparr>dashboard := '':foo''\<rparr>"
  let ?req = "\<lparr>Request_Method = ''POST'', Request_URL = ''https://hooks.example.com/teams'',
               Request_Body = ''CRITICAL'', Request_Header = []\<rparr>"
  have bad: "url_Parse ?ex (dashboard ?cfg) = Inl missing_protocol_scheme"
    by (simp add: test_extern_def Parse_colon_foo)
  then have h: "(\<exists>e. url_Parse ?ex (dashboard ?cfg) = Inl e) \<or>
                (\<exists>e. url_Parse ?ex (Event_URIPath ?ex test_event) = Inl e)"
    by blast
  have pre: "webhookURL ?cfg \<noteq> '''' \<and> json_Unmarshal ?ex test_payload = Inr test_decoded \<and>
          Decoded_Entity test_decoded = Some (Event_Entity test_event) \<and>
          Decoded_Check test_decoded = Some (Event_Check test_event) \<and>
          Entity_Validate ?ex (Event_Entity test_event) = None \<and>
          Check_Validate ?ex (Event_Check test_event) = None \<and>
          http_NewRequest ?ex ''POST'' (webhookURL ?cfg)
            (case json_Marshal ?ex (NewEventMessage ?ex ?cfg test_event) of
               Inl _ \<Rightarrow> '''' | Inr s \<Rightarrow> s) = Inr ?req \<and>
          client_Do ?ex (?req\<lparr>Request_Header :=
            Header_Set ''Content-Type'' ''application/json'' (Request_Header ?req)\<rparr>) =
            Inr \<lparr>Body_Close = None\<rparr> \<and>
          Body_Close \<lparr>Body_Close = None\<rparr> = None"
    by (simp add: test_extern_def test_config_def test_event_def test_decoded_def Parse_webhook
        NewEventMessage_fields getMessageStatus_def)
  from link_failure_is_soft
    [OF h, of test_payload test_decoded ?req "\<lparr>Body_Close = None\<rparr>"] pre bad
  show ?thesis by (simp add: Header_Set_def)
qed

text \<open>
  Claim C4 as it is written fails at the base \<open>not a url\<close>: \<open>url.Parse\<close> returns the
  URL whose path is \<open>not a url\<close>, and the link is the path of the event.
\<close>

theorem not_a_url_counterexample:
  "Parse ''not a url'' = Inr (new_URL\<lparr>Path := ''not a url'', RawPath := ''not a url''\<rparr>) \<and>
   getLink (test_extern []) (test_config\<lparr>dashboard := ''not a url''\<rparr>) test_event =
     ''/events/e1'' \<and>
   getLink (test_extern []) (test_config\<lparr>dashboard := ''not a url''\<rparr>) test_event \<noteq> ''''"
  by (simp add: Parse_not_a_url getLink_base_not_a_url)

end
